theory Spec2Isabelle
  imports Complex_Main "HOL-Library.AList"
begin

section \<open>JavaScript values and the built-ins the proxy relies on\<close>

text \<open>
  The two stores (\<^verbatim>\<open>data/pairings.json\<close>, \<^verbatim>\<open>data/devices.json\<close>) are JSON files, so the
  program works on whatever \<^verbatim>\<open>JSON.parse\<close> hands back. A value of the language is one of
  the JSON shapes or \<^verbatim>\<open>undefined\<close> (the result of reading an absent property). A number is
  the finite double the parser produced, kept as the rational it denotes. An object is the
  list of its own properties, keys distinct, read with \<open>map_of\<close>.
\<close>

datatype jsval =
    JUndefined
  | JNull
  | JBool bool
  | JNum rat
  | JStr string
  | JArr "jsval list"
  | JObj "(string \<times> jsval) list"

datatype error = TypeError | SyntaxError | SystemError | CodecError | RangeError

text \<open>
  A DNS message as the \<^verbatim>\<open>dns-packet\<close> library takes and gives it: the argument of
  \<^verbatim>\<open>dns.encode\<close>, field by field, and the questions of a decoded packet.
\<close>

record question =
  q_name :: string
  q_type :: string

datatype rdata =
    PTR_data string
  | TXT_data string
  | SRV_data (priority: nat) (weight: nat) (srv_port: nat) (target: string)
  | A_data jsval

record resource =
  rr_type :: string
  rr_class :: string
  rr_name :: string
  rr_ttl :: nat
  rr_data :: rdata

record message =
  msg_type :: string
  msg_id :: nat
  msg_flags :: nat
  msg_questions :: "question list"
  msg_answers :: "resource list"
  msg_additionals :: "resource list"

text \<open>
  Three functions of the platform and of the \<^verbatim>\<open>dns-packet\<close> library cannot be written out
  here and are taken as parameters: \<^verbatim>\<open>Date.parse\<close> on a string (a time value in
  milliseconds, \<open>None\<close> for \<^verbatim>\<open>NaN\<close>), the decimal rendering of a number, and
  \<^verbatim>\<open>dns.encode\<close>, which yields the buffer to send or throws.
\<close>

record 'b runtime =
  Date_parse :: "string \<Rightarrow> int option"
  Number_toString :: "rat \<Rightarrow> string"
  dns_encode :: "message \<Rightarrow> error + 'b"

text \<open>\<^verbatim>\<open>!v\<close> is \<open>\<not> truthy v\<close>.\<close>

fun truthy :: "jsval \<Rightarrow> bool" where
  "truthy JUndefined = False"
| "truthy JNull = False"
| "truthy (JBool b) = b"
| "truthy (JNum r) = (r \<noteq> 0)"
| "truthy (JStr s) = (s \<noteq> [])"
| "truthy (JArr xs) = True"
| "truthy (JObj kvs) = True"

text \<open>
  Property read \<^verbatim>\<open>v[k]\<close> / \<^verbatim>\<open>v.k\<close>. Reading a property of \<^verbatim>\<open>null\<close> or \<^verbatim>\<open>undefined\<close>
  throws. The keys the program reads are the field names \<^verbatim>\<open>room\<close>, \<^verbatim>\<open>expires_at\<close>,
  \<^verbatim>\<open>uuid\<close>, \<^verbatim>\<open>friendly_name\<close>, \<^verbatim>\<open>ip\<close> and the dotted-quad source address of a
  \<^verbatim>\<open>udp4\<close> socket; none of them names an array index, \<^verbatim>\<open>length\<close> or a member inherited
  from a prototype, so on anything but an object with that own property the read gives
  \<^verbatim>\<open>undefined\<close>.
\<close>

fun get_prop :: "jsval \<Rightarrow> string \<Rightarrow> error + jsval" where
  "get_prop JUndefined k = Inl TypeError"
| "get_prop JNull k = Inl TypeError"
| "get_prop (JObj kvs) k = Inr (case map_of kvs k of None \<Rightarrow> JUndefined | Some v \<Rightarrow> v)"
| "get_prop v k = Inr JUndefined"

text \<open>
  \<^verbatim>\<open>a === b\<close>. Everywhere the program compares, the two sides come out of different
  \<^verbatim>\<open>JSON.parse\<close> results (or a fresh object), so two arrays or objects are never the same
  reference; primitives compare by value.
\<close>

fun strict_eq :: "jsval \<Rightarrow> jsval \<Rightarrow> bool" where
  "strict_eq (JArr xs) b = False"
| "strict_eq (JObj kvs) b = False"
| "strict_eq a b = (a = b)"

fun join :: "string \<Rightarrow> string list \<Rightarrow> string" where
  "join sep [] = []"
| "join sep [s] = s"
| "join sep (s # t # ss) = s @ sep @ join sep (t # ss)"

text \<open>The results of a list of conversions, up to the first one that throws.\<close>

fun collect :: "(error + 'a) list \<Rightarrow> error + 'a list" where
  "collect [] = Inr []"
| "collect (Inl err # rs) = Inl err"
| "collect (Inr x # rs) = (case collect rs of Inl err \<Rightarrow> Inl err | Inr xs \<Rightarrow> Inr (x # xs))"

text \<open>
  The conversion to a string that a template literal \<^verbatim>\<open>`${v}`\<close> applies. A parsed object
  inherits \<^verbatim>\<open>Object.prototype.toString\<close> unless it has an own key \<^verbatim>\<open>toString\<close>; the
  value under that key is not callable, \<^verbatim>\<open>valueOf\<close> gives no primitive either, and the
  conversion throws a \<^verbatim>\<open>TypeError\<close>. An array joins the conversions of its elements,
  \<^verbatim>\<open>null\<close> counting as the empty string, and throws where one of them does.
\<close>

fun ToString :: "'b runtime \<Rightarrow> jsval \<Rightarrow> error + string" where
  "ToString rt JUndefined = Inr ''undefined''"
| "ToString rt JNull = Inr ''null''"
| "ToString rt (JBool b) = Inr (if b then ''true'' else ''false'')"
| "ToString rt (JNum r) = Inr (Number_toString rt r)"
| "ToString rt (JStr s) = Inr s"
| "ToString rt (JArr xs) =
     (case collect (map (\<lambda>x. if x = JUndefined \<or> x = JNull then Inr [] else ToString rt x) xs) of
        Inl err \<Rightarrow> Inl err
      | Inr parts \<Rightarrow> Inr (join '','' parts))"
| "ToString rt (JObj kvs) =
     (if map_of kvs ''toString'' = None then Inr ''[object Object]'' else Inl TypeError)"

text \<open>
  The time value of \<^verbatim>\<open>new Date(v)\<close>: \<open>None\<close> is \<^verbatim>\<open>NaN\<close> (an invalid date). A string is
  parsed; an array or object is first converted to a primitive, which is its string or
  throws as above, and that string is parsed; anything else is converted to a number and
  clipped to the range of valid time values.
\<close>

definition TimeClip :: "rat \<Rightarrow> int option" where
  "TimeClip r =
     (if \<bar>r\<bar> > 8640000000000000 then None
      else Some (if r \<ge> 0 then \<lfloor>r\<rfloor> else \<lceil>r\<rceil>))"

fun new_Date :: "'b runtime \<Rightarrow> jsval \<Rightarrow> error + int option" where
  "new_Date rt JUndefined = Inr None"
| "new_Date rt JNull = Inr (Some 0)"
| "new_Date rt (JBool b) = Inr (Some (if b then 1 else 0))"
| "new_Date rt (JNum r) = Inr (TimeClip r)"
| "new_Date rt (JStr s) = Inr (Date_parse rt s)"
| "new_Date rt v =
     (case ToString rt v of Inl err \<Rightarrow> Inl err | Inr s \<Rightarrow> Inr (Date_parse rt s))"

text \<open>\<^verbatim>\<open>a < b\<close> on two dates compares their time values; with \<^verbatim>\<open>NaN\<close> it is false.\<close>

fun date_lt :: "int option \<Rightarrow> int option \<Rightarrow> bool" where
  "date_lt (Some a) (Some b) = (a < b)"
| "date_lt a b = False"

section \<open>The stores\<close>

text \<open>
  \<^verbatim>\<open>JSON.parse(await fs.readFile(file, 'utf8'))\<close> either throws (the file is missing or
  unreadable: \<open>Inl SystemError\<close>; its text is not JSON: \<open>Inl SyntaxError\<close>) or yields the
  parsed value. The environment of one query is the outcome of the two reads and the clock.
\<close>

type_synonym file_read = "error + jsval"

record env =
  pairingsFile :: file_read
  devicesFile :: file_read
  now :: int

section \<open>GuestResponder\<close>

text \<open>
  \<^verbatim>\<open>getRoomForGuest\<close>: every exception inside the \<^verbatim>\<open>try\<close> block ends in
  \<^verbatim>\<open>return null\<close>.
\<close>

definition getRoomForGuest :: "'b runtime \<Rightarrow> env \<Rightarrow> string \<Rightarrow> jsval" where
  "getRoomForGuest rt e guestIP =
     (case pairingsFile e of
        Inl err \<Rightarrow> JNull
      | Inr pairings \<Rightarrow>
          (case get_prop pairings guestIP of
             Inl err \<Rightarrow> JNull
           | Inr pairing \<Rightarrow>
               if \<not> truthy pairing then JNull
               else (case get_prop pairing ''expires_at'' of
                  Inl err \<Rightarrow> JNull
                | Inr expires_at \<Rightarrow>
                    (case new_Date rt expires_at of
                       Inl err \<Rightarrow> JNull
                     | Inr expires \<Rightarrow>
                         if date_lt expires (Some (now e)) then JNull
                         else (case get_prop pairing ''room'' of
                            Inl err \<Rightarrow> JNull
                          | Inr room \<Rightarrow> room)))))"

text \<open>
  \<^verbatim>\<open>devices.filter(d => d.room === room)\<close>: the callback reads \<^verbatim>\<open>d.room\<close> of every
  element in turn, and throws on an element that is \<^verbatim>\<open>null\<close>.
\<close>

fun filter_room :: "jsval \<Rightarrow> jsval list \<Rightarrow> error + jsval list" where
  "filter_room room [] = Inr []"
| "filter_room room (d # ds) =
     (case get_prop d ''room'' of
        Inl err \<Rightarrow> Inl err
      | Inr r \<Rightarrow>
          (case filter_room room ds of
             Inl err \<Rightarrow> Inl err
           | Inr rest \<Rightarrow> Inr (if strict_eq r room then d # rest else rest)))"

text \<open>
  The callback \<^verbatim>\<open>d => d.room === room\<close> as a predicate: false where the read of
  \<^verbatim>\<open>d.room\<close> throws.
\<close>

definition in_room :: "jsval \<Rightarrow> jsval \<Rightarrow> bool" where
  "in_room room d = (case get_prop d ''room'' of Inl err \<Rightarrow> False | Inr r \<Rightarrow> strict_eq r room)"

text \<open>
  \<^verbatim>\<open>getDevicesForRoom\<close>: a failed read, a value without a \<^verbatim>\<open>filter\<close> method (anything
  but an array) and a throwing callback all end in \<^verbatim>\<open>return []\<close>.
\<close>

definition getDevicesForRoom :: "env \<Rightarrow> jsval \<Rightarrow> jsval list" where
  "getDevicesForRoom e room =
     (case devicesFile e of
        Inl err \<Rightarrow> []
      | Inr (JArr devices) \<Rightarrow>
          (case filter_room room devices of Inl err \<Rightarrow> [] | Inr ds \<Rightarrow> ds)
      | Inr v \<Rightarrow> [])"

subsection \<open>Building a response\<close>

text \<open>\<^verbatim>\<open>uuid.replace(/-/g, '')\<close> drops every hyphen.\<close>

definition instanceName :: "string \<Rightarrow> string" where
  "instanceName uuid = ''Chromecast-'' @ filter (\<lambda>c. c \<noteq> CHR ''-'') uuid"

text \<open>
  The object literal of \<^verbatim>\<open>buildResponse\<close>. \<^verbatim>\<open>device.uuid.replace\<close> throws unless
  \<^verbatim>\<open>device.uuid\<close> is a string, and the template \<^verbatim>\<open>`fn=${device.friendly_name}`\<close>
  throws where the conversion of the friendly name does; \<^verbatim>\<open>device.ip\<close> is passed on as
  it is.
\<close>

definition response_message :: "'b runtime \<Rightarrow> jsval \<Rightarrow> error + message" where
  "response_message rt device =
     (case get_prop device ''uuid'' of
        Inl err \<Rightarrow> Inl err
      | Inr (JStr uuid) \<Rightarrow>
          (case get_prop device ''friendly_name'' of
             Inl err \<Rightarrow> Inl err
           | Inr friendly_name \<Rightarrow>
          (case ToString rt friendly_name of
             Inl err \<Rightarrow> Inl err
           | Inr fn \<Rightarrow>
          (case get_prop device ''ip'' of
             Inl err \<Rightarrow> Inl err
           | Inr ip \<Rightarrow>
               Inr \<lparr> msg_type = ''response'',
                     msg_id = 0,
                     msg_flags = 0x8400,
                     msg_questions = [],
                     msg_answers =
                       [\<lparr> rr_type = ''PTR'', rr_class = ''IN'',
                          rr_name = ''_googlecast._tcp.local'', rr_ttl = 120,
                          rr_data = PTR_data (instanceName uuid @ ''._googlecast._tcp.local'') \<rparr>],
                     msg_additionals =
                       [\<lparr> rr_type = ''TXT'', rr_class = ''IN'',
                          rr_name = instanceName uuid @ ''._googlecast._tcp.local'', rr_ttl = 120,
                          rr_data = TXT_data (join [CHR 0x00]
                            [''id='' @ uuid,
                             ''fn='' @ fn,
                             ''md=Chromecast'',
                             ''ve=05'',
                             ''ic=/setup/icon.png'']) \<rparr>,
                        \<lparr> rr_type = ''SRV'', rr_class = ''IN'',
                          rr_name = instanceName uuid @ ''._googlecast._tcp.local'', rr_ttl = 120,
                          rr_data = SRV_data 0 0 8009 (instanceName uuid @ ''.local'') \<rparr>,
                        \<lparr> rr_type = ''A'', rr_class = ''IN'',
                          rr_name = instanceName uuid @ ''.local'', rr_ttl = 120,
                          rr_data = A_data ip \<rparr>] \<rparr>)))
      | Inr v \<Rightarrow> Inl TypeError)"

text \<open>\<^verbatim>\<open>buildResponse\<close> returns \<^verbatim>\<open>dns.encode\<close> of that literal.\<close>

definition buildResponse :: "'b runtime \<Rightarrow> jsval \<Rightarrow> error + 'b" where
  "buildResponse rt device =
     (case response_message rt device of
        Inl err \<Rightarrow> Inl err
      | Inr m \<Rightarrow> dns_encode rt m)"

subsection \<open>Handling one datagram\<close>

text \<open>
  \<^verbatim>\<open>dns.decode(msg)\<close> throws on a malformed datagram or yields a packet; its
  \<^verbatim>\<open>questions\<close> may be absent (the code reads it with \<^verbatim>\<open>?.\<close>). \<^verbatim>\<open>rinfo\<close> carries the
  source address and source port of the datagram received.
\<close>

record packet =
  pkt_questions :: "question list option"

record rinfo =
  address :: string
  port :: nat

datatype 'b datagram = Datagram (payload: 'b) (dst_port: nat) (dst_addr: string)

text \<open>
  \<^verbatim>\<open>socket.send(msg, port, address)\<close> checks the port before it queues the datagram: port
  0, or one above 65535, throws \<^verbatim>\<open>ERR_SOCKET_BAD_PORT\<close>, a \<^verbatim>\<open>RangeError\<close>.
\<close>

definition socket_send :: "'b \<Rightarrow> nat \<Rightarrow> string \<Rightarrow> error + 'b datagram" where
  "socket_send msg p addr =
     (if p = 0 \<or> 65535 < p then Inl RangeError else Inr (Datagram msg p addr))"

text \<open>
  What one call of \<^verbatim>\<open>handleQuery\<close> did: the datagrams queued by \<^verbatim>\<open>socket.send\<close>, in
  order, and the exception it ended with, if any (the \<^verbatim>\<open>message\<close> listener catches and
  logs it). Apart from reading the two stores and writing log lines, a call does nothing
  else.
\<close>

record 'b run =
  sent :: "'b datagram list"
  thrown :: "error option"

text \<open>
  \<^verbatim>\<open>packet.questions?.some(...)\<close>; \<^verbatim>\<open>undefined\<close> (no questions) counts as false under
  \<^verbatim>\<open>!\<close>.
\<close>

definition isGoogleCast :: "packet \<Rightarrow> bool" where
  "isGoogleCast p =
     (case pkt_questions p of
        None \<Rightarrow> False
      | Some qs \<Rightarrow> list_ex (\<lambda>q. q_name q = ''_googlecast._tcp.local'' \<and> q_type q = ''PTR'') qs)"

text \<open>
  The \<^verbatim>\<open>for (const device of devices)\<close> loop: build the response, send it, then log
  \<^verbatim>\<open>`Sent response for ${device.friendly_name}`\<close>. An exception in any of the three
  leaves the loop at once.
\<close>

fun send_each :: "'b runtime \<Rightarrow> rinfo \<Rightarrow> string \<Rightarrow> jsval list \<Rightarrow> 'b run" where
  "send_each rt ri guestIP [] = \<lparr> sent = [], thrown = None \<rparr>"
| "send_each rt ri guestIP (device # devices) =
     (case buildResponse rt device of
        Inl err \<Rightarrow> \<lparr> sent = [], thrown = Some err \<rparr>
      | Inr response \<Rightarrow>
          (case socket_send response (port ri) guestIP of
             Inl err \<Rightarrow> \<lparr> sent = [], thrown = Some err \<rparr>
           | Inr dg \<Rightarrow>
               (case get_prop device ''friendly_name'' of
                  Inl err \<Rightarrow> \<lparr> sent = [dg], thrown = Some err \<rparr>
                | Inr friendly_name \<Rightarrow>
                    (case ToString rt friendly_name of
                       Inl err \<Rightarrow> \<lparr> sent = [dg], thrown = Some err \<rparr>
                     | Inr line \<Rightarrow>
                         (let r = send_each rt ri guestIP devices
                          in r \<lparr> sent := dg # sent r \<rparr>)))))"

text \<open>
  \<^verbatim>\<open>handleQuery\<close>. Between the test of the room and the read of the registry stands the
  log line \<^verbatim>\<open>`Paired to Room ${room}`\<close>, which throws where the conversion of the room
  does; the other log lines print strings and numbers.
\<close>

definition handleQuery :: "'b runtime \<Rightarrow> env \<Rightarrow> error + packet \<Rightarrow> rinfo \<Rightarrow> 'b run" where
  "handleQuery rt e decoded ri =
     (case decoded of
        Inl err \<Rightarrow> \<lparr> sent = [], thrown = Some err \<rparr>
      | Inr p \<Rightarrow>
          if \<not> isGoogleCast p then \<lparr> sent = [], thrown = None \<rparr>
          else
            (let guestIP = address ri;
                 room = getRoomForGuest rt e guestIP
             in if \<not> truthy room then \<lparr> sent = [], thrown = None \<rparr>
                else (case ToString rt room of
                        Inl err \<Rightarrow> \<lparr> sent = [], thrown = Some err \<rparr>
                      | Inr line \<Rightarrow> send_each rt ri guestIP (getDevicesForRoom e room))))"

subsection \<open>Relevance as the specification words it\<close>

text \<open>
  The specification calls a query relevant when some question asks for a pointer record
  and its name matches the service name case-insensitively. This definition follows those
  words, for comparison with \<open>isGoogleCast\<close>.
\<close>

definition ascii_lower :: "char \<Rightarrow> char" where
  "ascii_lower c =
     (case map_of (zip ''ABCDEFGHIJKLMNOPQRSTUVWXYZ'' ''abcdefghijklmnopqrstuvwxyz'') c of
        None \<Rightarrow> c
      | Some l \<Rightarrow> l)"

definition spec_relevant :: "packet \<Rightarrow> bool" where
  "spec_relevant p =
     (case pkt_questions p of
        None \<Rightarrow> False
      | Some qs \<Rightarrow>
          list_ex (\<lambda>q. map ascii_lower (q_name q) = ''_googlecast._tcp.local''
                       \<and> q_type q = ''PTR'') qs)"

section \<open>ChromecastDiscovery\<close>

text \<open>\<^verbatim>\<open>s.replace(pat, rep)\<close> with a string pattern replaces its first occurrence.\<close>

fun replace_first :: "string \<Rightarrow> string \<Rightarrow> string \<Rightarrow> string" where
  "replace_first pat rep [] = (if pat = [] then rep else [])"
| "replace_first pat rep (c # cs) =
     (if take (length pat) (c # cs) = pat then rep @ drop (length pat) (c # cs)
      else c # replace_first pat rep cs)"

text \<open>
  \<^verbatim>\<open>fetchDeviceInfo\<close>: the HTTP request, the XML parse and the reads of
  \<^verbatim>\<open>result.root.device[0]\<close>, \<^verbatim>\<open>UDN[0]\<close> and \<^verbatim>\<open>friendlyName[0]\<close> either throw or
  give the text of the description's first \<^verbatim>\<open>UDN\<close> and \<^verbatim>\<open>friendlyName\<close> elements; the
  third argument is \<^verbatim>\<open>new Date().toISOString()\<close>. The record returned always carries
  \<^verbatim>\<open>room: null\<close>.
\<close>

record description =
  UDN :: string
  friendlyName :: string

definition fetchDeviceInfo :: "error + description \<Rightarrow> string \<Rightarrow> string \<Rightarrow> error + jsval" where
  "fetchDeviceInfo fetched ip iso_now =
     (case fetched of
        Inl err \<Rightarrow> Inl err
      | Inr device \<Rightarrow>
          Inr (JObj [(''uuid'', JStr (replace_first ''uuid:'' [] (UDN device))),
                     (''friendly_name'', JStr (friendlyName device)),
                     (''ip'', JStr ip),
                     (''last_seen'', JStr iso_now),
                     (''room'', JNull)]))"

text \<open>
  \<^verbatim>\<open>devices.findIndex(d => d.uuid === deviceInfo.uuid)\<close> stops at the first match and
  throws on an element that is \<^verbatim>\<open>null\<close>.
\<close>

fun findIndex :: "jsval \<Rightarrow> jsval list \<Rightarrow> error + nat option" where
  "findIndex deviceInfo [] = Inr None"
| "findIndex deviceInfo (d # ds) =
     (case get_prop d ''uuid'' of
        Inl err \<Rightarrow> Inl err
      | Inr a \<Rightarrow>
          (case get_prop deviceInfo ''uuid'' of
             Inl err \<Rightarrow> Inl err
           | Inr b \<Rightarrow>
               if strict_eq a b then Inr (Some 0)
               else (case findIndex deviceInfo ds of
                  Inl err \<Rightarrow> Inl err
                | Inr None \<Rightarrow> Inr None
                | Inr (Some i) \<Rightarrow> Inr (Some (Suc i)))))"

text \<open>
  Object spread: \<^verbatim>\<open>{ ...a, ...b }\<close> copies the own properties of \<open>a\<close>, then those of
  \<open>b\<close>, a later write to a key replacing the value in place. A primitive other than a string
  has no own properties; an array or string has its elements under their indices.
\<close>

function decimal :: "nat \<Rightarrow> string" where
  "decimal n = (if n < 10 then [char_of (48 + n)] else decimal (n div 10) @ [char_of (48 + n mod 10)])"
  by pat_completeness auto
termination
  by (relation "measure id") auto

fun own_props :: "jsval \<Rightarrow> (string \<times> jsval) list" where
  "own_props (JObj kvs) = kvs"
| "own_props (JArr xs) = zip (map decimal [0 ..< length xs]) xs"
| "own_props (JStr s) = zip (map decimal [0 ..< length s]) (map (\<lambda>c. JStr [c]) s)"
| "own_props v = []"

definition spread :: "(string \<times> jsval) list \<Rightarrow> (string \<times> jsval) list \<Rightarrow> (string \<times> jsval) list" where
  "spread acc props = fold (\<lambda>(k, v). AList.update k v) props acc"

text \<open>
  \<^verbatim>\<open>saveDevice\<close>: a failed read leaves \<^verbatim>\<open>devices = []\<close>; \<^verbatim>\<open>findIndex\<close> exists on arrays
  only. The result is the array handed to \<^verbatim>\<open>JSON.stringify\<close> and written back.
\<close>

definition saveDevice :: "file_read \<Rightarrow> jsval \<Rightarrow> error + jsval" where
  "saveDevice file deviceInfo =
     (case (case file of Inl err \<Rightarrow> JArr [] | Inr v \<Rightarrow> v) of
        JArr devices \<Rightarrow>
          (case findIndex deviceInfo devices of
             Inl err \<Rightarrow> Inl err
           | Inr (Some index) \<Rightarrow>
               Inr (JArr (devices[index :=
                  JObj (spread (spread [] (own_props (devices ! index))) (own_props deviceInfo))]))
           | Inr None \<Rightarrow> Inr (JArr (devices @ [deviceInfo])))
      | v \<Rightarrow> Inl TypeError)"

section \<open>A concrete deployment\<close>

text \<open>
  Guest \<^verbatim>\<open>10.0.20.5\<close> is paired to room \<^verbatim>\<open>101\<close>; the registry holds the receiver
  \<^verbatim>\<open>abc\<close> of that room at \<^verbatim>\<open>10.0.30.9\<close>. The date parser knows the one timestamp used,
  2025-12-08T22:00:00Z, which is 1765231200000 ms after the epoch; the encoder accepts every
  message and lets the message stand for its buffer.
\<close>

definition sample_runtime :: "message runtime" where
  "sample_runtime =
     \<lparr> Date_parse = (\<lambda>s. if s = ''2025-12-08T22:00:00.000Z'' then Some 1765231200000 else None),
       Number_toString = (\<lambda>r. if r = 0 then ''0'' else ''NaN''),
       dns_encode = Inr \<rparr>"

definition pairing_101 :: "jsval \<Rightarrow> jsval" where
  "pairing_101 expires =
     JObj [(''room'', JStr ''101''),
           (''paired_at'', JStr ''2025-12-08T10:00:00.000Z''),
           (''expires_at'', expires),
           (''token_used'', JStr ''c0ffee'')]"

definition device_abc :: jsval where
  "device_abc =
     JObj [(''uuid'', JStr ''abc''),
           (''friendly_name'', JStr ''Living Room TV''),
           (''ip'', JStr ''10.0.30.9''),
           (''last_seen'', JStr ''2025-12-08T14:30:45.123Z''),
           (''room'', JStr ''101'')]"

definition device_in :: "string \<Rightarrow> string \<Rightarrow> string \<Rightarrow> jsval" where
  "device_in uuid ip room =
     JObj [(''uuid'', JStr uuid),
           (''friendly_name'', JStr ''TV''),
           (''ip'', JStr ip),
           (''last_seen'', JStr ''2025-12-08T14:30:45.123Z''),
           (''room'', JStr room)]"

definition scenario :: "jsval \<Rightarrow> int \<Rightarrow> env" where
  "scenario expires t =
     \<lparr> pairingsFile = Inr (JObj [(''10.0.20.5'', pairing_101 expires)]),
       devicesFile = Inr (JArr [device_abc]),
       now = t \<rparr>"

definition cast_query :: packet where
  "cast_query =
     \<lparr> pkt_questions = Some [\<lparr> q_name = ''_googlecast._tcp.local'', q_type = ''PTR'' \<rparr>] \<rparr>"

definition guest :: rinfo where
  "guest = \<lparr> address = ''10.0.20.5'', port = 49152 \<rparr>"

lemmas scenario_defs =
  sample_runtime_def pairing_101_def device_abc_def scenario_def cast_query_def guest_def

section \<open>Authorization\<close>

lemma getRoomForGuest_read_fails:
  "pairingsFile e = Inl err \<Longrightarrow> getRoomForGuest rt e guestIP = JNull"
  by (simp add: getRoomForGuest_def)

lemma getRoomForGuest_no_record:
  assumes "pairingsFile e = Inr pairings"
    and "\<forall>pairing. get_prop pairings guestIP = Inr pairing \<longrightarrow> \<not> truthy pairing"
  shows "getRoomForGuest rt e guestIP = JNull"
  using assms by (simp add: getRoomForGuest_def split: sum.splits)

lemma getRoomForGuest_expired:
  assumes "pairingsFile e = Inr pairings" and "get_prop pairings guestIP = Inr pairing"
    and "get_prop pairing ''expires_at'' = Inr expires_at"
    and "new_Date rt expires_at = Inr (Some t)" and "t < now e"
  shows "getRoomForGuest rt e guestIP = JNull"
  using assms by (simp add: getRoomForGuest_def)

lemma handleQuery_not_truthy:
  "\<not> truthy (getRoomForGuest rt e (address ri)) \<Longrightarrow> sent (handleQuery rt e decoded ri) = []"
  by (simp add: handleQuery_def Let_def split: sum.splits)

lemma handleQuery_authorized:
  assumes "isGoogleCast p" and "getRoomForGuest rt e (address ri) = JStr R" and "R \<noteq> []"
  shows "handleQuery rt e (Inr p) ri = send_each rt ri (address ri) (getDevicesForRoom e (JStr R))"
  using assms by (simp add: handleQuery_def Let_def)

text \<open>
  C1, as amended. When the read of the pairing store fails (missing, unreadable or
  unparsable file), or the store has no record for the source address (the lookup throws or
  gives \<^verbatim>\<open>undefined\<close> or another falsy value), or the record's \<^verbatim>\<open>expires_at\<close> is
  strictly earlier than the time of the query, \<^verbatim>\<open>getRoomForGuest\<close> returns \<^verbatim>\<open>null\<close>
  and \<^verbatim>\<open>handleQuery\<close> sends no datagram, whatever the datagram received was.
\<close>

theorem unauthorized_no_response:
  assumes "(\<exists>err. pairingsFile e = Inl err)
     \<or> (\<exists>pairings. pairingsFile e = Inr pairings
           \<and> (\<forall>pairing. get_prop pairings (address ri) = Inr pairing \<longrightarrow> \<not> truthy pairing))
     \<or> (\<exists>pairings pairing expires_at t.
           pairingsFile e = Inr pairings \<and> get_prop pairings (address ri) = Inr pairing
         \<and> get_prop pairing ''expires_at'' = Inr expires_at
         \<and> new_Date rt expires_at = Inr (Some t) \<and> t < now e)"
  shows "getRoomForGuest rt e (address ri) = JNull \<and> sent (handleQuery rt e decoded ri) = []"
proof -
  from assms have "getRoomForGuest rt e (address ri) = JNull"
  proof (elim disjE exE conjE)
    fix err
    assume "pairingsFile e = Inl err"
    then show ?thesis by (rule getRoomForGuest_read_fails)
  next
    fix pairings
    assume "pairingsFile e = Inr pairings"
      and "\<forall>pairing. get_prop pairings (address ri) = Inr pairing \<longrightarrow> \<not> truthy pairing"
    then show ?thesis by (rule getRoomForGuest_no_record)
  next
    fix pairings pairing expires_at t
    assume "pairingsFile e = Inr pairings" and "get_prop pairings (address ri) = Inr pairing"
      and "get_prop pairing ''expires_at'' = Inr expires_at"
      and "new_Date rt expires_at = Inr (Some t)" and "t < now e"
    then show ?thesis by (rule getRoomForGuest_expired)
  qed
  then show ?thesis
    by (simp add: handleQuery_not_truthy)
qed

text \<open>The pairing expired one second before the query: nothing is sent.\<close>

theorem unauthorized_no_response_witness:
  "getRoomForGuest sample_runtime (scenario (JStr ''2025-12-08T22:00:00.000Z'') 1765231201000)
       (address guest) = JNull
   \<and> sent (handleQuery sample_runtime (scenario (JStr ''2025-12-08T22:00:00.000Z'') 1765231201000)
       (Inr cast_query) guest) = []"
proof -
  let ?e = "scenario (JStr ''2025-12-08T22:00:00.000Z'') 1765231201000"
  have "pairingsFile ?e = Inr (JObj [(''10.0.20.5'', pairing_101 (JStr ''2025-12-08T22:00:00.000Z''))])
      \<and> get_prop (JObj [(''10.0.20.5'', pairing_101 (JStr ''2025-12-08T22:00:00.000Z''))]) (address guest)
          = Inr (pairing_101 (JStr ''2025-12-08T22:00:00.000Z''))
      \<and> get_prop (pairing_101 (JStr ''2025-12-08T22:00:00.000Z'')) ''expires_at''
          = Inr (JStr ''2025-12-08T22:00:00.000Z'')
      \<and> new_Date sample_runtime (JStr ''2025-12-08T22:00:00.000Z'') = Inr (Some 1765231200000)
      \<and> (1765231200000::int) < now ?e"
    by (simp add: scenario_defs)
  then show ?thesis
    using unauthorized_no_response
      [where e = ?e and ri = guest and rt = sample_runtime and decoded = "Inr cast_query"]
    by blast
qed

text \<open>
  With \<^verbatim>\<open>expires_at\<close> equal to the time of the query (so \<open>expiresAt \<le> now\<close>) the guest is
  still authorized and gets a response.
\<close>

theorem expiry_inclusive_counterexample:
  "new_Date sample_runtime (JStr ''2025-12-08T22:00:00.000Z'') = Inr (Some 1765231200000)
   \<and> (1765231200000::int) \<le> now (scenario (JStr ''2025-12-08T22:00:00.000Z'') 1765231200000)
   \<and> length (sent (handleQuery sample_runtime
         (scenario (JStr ''2025-12-08T22:00:00.000Z'') 1765231200000) (Inr cast_query) guest)) = 1"
  by (simp add: handleQuery_def Let_def isGoogleCast_def getRoomForGuest_def getDevicesForRoom_def
      buildResponse_def response_message_def socket_send_def scenario_defs)

text \<open>
  C3, as amended. The expiry test is strict: a pairing whose \<^verbatim>\<open>expires_at\<close> is a valid
  date is refused only when that date is earlier than the time of the query. At equality
  \<^verbatim>\<open>getRoomForGuest\<close> returns the pairing's room.
\<close>

theorem expiry_is_strict:
  assumes "pairingsFile e = Inr pairings" and "get_prop pairings guestIP = Inr pairing"
    and "truthy pairing"
    and "get_prop pairing ''expires_at'' = Inr expires_at"
    and "get_prop pairing ''room'' = Inr room"
    and "new_Date rt expires_at = Inr (Some t)"
  shows "getRoomForGuest rt e guestIP = (if t < now e then JNull else room)"
  using assms by (simp add: getRoomForGuest_def)

theorem expiry_is_strict_witness:
  "getRoomForGuest sample_runtime (scenario (JStr ''2025-12-08T22:00:00.000Z'') 1765231200000)
     ''10.0.20.5'' = JStr ''101''"
proof -
  let ?e = "scenario (JStr ''2025-12-08T22:00:00.000Z'') 1765231200000"
  let ?p = "pairing_101 (JStr ''2025-12-08T22:00:00.000Z'')"
  have 1: "pairingsFile ?e = Inr (JObj [(''10.0.20.5'', ?p)])"
    by (simp add: scenario_def)
  have 2: "get_prop (JObj [(''10.0.20.5'', ?p)]) ''10.0.20.5'' = Inr ?p"
    by simp
  have 3: "truthy ?p"
    by (simp add: pairing_101_def)
  have 4: "get_prop ?p ''expires_at'' = Inr (JStr ''2025-12-08T22:00:00.000Z'')"
    by (simp add: pairing_101_def)
  have 5: "get_prop ?p ''room'' = Inr (JStr ''101'')"
    by (simp add: pairing_101_def)
  have 6: "new_Date sample_runtime (JStr ''2025-12-08T22:00:00.000Z'') = Inr (Some 1765231200000)"
    by (simp add: sample_runtime_def)
  have 7: "now ?e = 1765231200000"
    by (simp add: scenario_def)
  show ?thesis
    using expiry_is_strict [OF 1 2 3 4 5 6] 7 by simp
qed

text \<open>The pairing expires at the very millisecond of the query and the room comes back.\<close>

theorem boundary_pairing_counterexample:
  "new_Date sample_runtime (JStr ''2025-12-08T22:00:00.000Z'')
     = Inr (Some (now (scenario (JStr ''2025-12-08T22:00:00.000Z'') 1765231200000)))
   \<and> getRoomForGuest sample_runtime (scenario (JStr ''2025-12-08T22:00:00.000Z'') 1765231200000)
        ''10.0.20.5'' = JStr ''101''"
  by (simp add: getRoomForGuest_def scenario_defs)

text \<open>
  C10. A pairing whose \<^verbatim>\<open>expires_at\<close> does not give a valid date, that is, for which
  \<^verbatim>\<open>new Date(pairing.expires_at)\<close> has the time value \<^verbatim>\<open>NaN\<close>, passes the expiry test at
  any time: \<^verbatim>\<open>getRoomForGuest\<close> returns its room. (Where the construction of the date
  throws, the \<^verbatim>\<open>catch\<close> returns \<^verbatim>\<open>null\<close>; that is no \<^verbatim>\<open>NaN\<close> and is not covered
  here.)
\<close>

theorem malformed_expiry_authorizes:
  assumes "pairingsFile e = Inr pairings" and "get_prop pairings guestIP = Inr pairing"
    and "truthy pairing"
    and "get_prop pairing ''expires_at'' = Inr expires_at"
    and "get_prop pairing ''room'' = Inr room"
    and "new_Date rt expires_at = Inr None"
  shows "getRoomForGuest rt e guestIP = room"
  using assms by (simp add: getRoomForGuest_def)

text \<open>
  The expiry is the string \<^verbatim>\<open>next tuesday\<close>; the query comes at the time the pairing was
  meant to end.
\<close>

theorem malformed_expiry_authorizes_witness:
  "new_Date sample_runtime (JStr ''next tuesday'') = Inr None
   \<and> getRoomForGuest sample_runtime (scenario (JStr ''next tuesday'') 1765231200000)
     ''10.0.20.5'' = JStr ''101''"
proof -
  let ?e = "scenario (JStr ''next tuesday'') 1765231200000"
  let ?p = "pairing_101 (JStr ''next tuesday'')"
  have 1: "pairingsFile ?e = Inr (JObj [(''10.0.20.5'', ?p)])"
    by (simp add: scenario_def)
  have 2: "get_prop (JObj [(''10.0.20.5'', ?p)]) ''10.0.20.5'' = Inr ?p"
    by simp
  have 3: "truthy ?p"
    by (simp add: pairing_101_def)
  have 4: "get_prop ?p ''expires_at'' = Inr (JStr ''next tuesday'')"
    by (simp add: pairing_101_def)
  have 5: "get_prop ?p ''room'' = Inr (JStr ''101'')"
    by (simp add: pairing_101_def)
  have 6: "new_Date sample_runtime (JStr ''next tuesday'') = Inr None"
    by (simp add: sample_runtime_def)
  show ?thesis
    using malformed_expiry_authorizes [OF 1 2 3 4 5 6] 6 by simp
qed

section \<open>Relevance\<close>

text \<open>
  C5, as amended. A decoded query is relevant exactly when one of its questions has the
  name \<^verbatim>\<open>_googlecast._tcp.local\<close>, character for character, and the type \<^verbatim>\<open>PTR\<close>; one
  such question among several suffices. A query that is not relevant gets no datagram, and
  so does every query without a question that matches in the specification's
  case-insensitive sense.
\<close>

theorem relevance_is_exact:
  "isGoogleCast p =
     (\<exists>qs. pkt_questions p = Some qs
        \<and> (\<exists>q\<in>set qs. q_name q = ''_googlecast._tcp.local'' \<and> q_type q = ''PTR''))
   \<and> (\<not> isGoogleCast p \<longrightarrow> sent (handleQuery rt e (Inr p) ri) = [])
   \<and> (\<not> spec_relevant p \<longrightarrow> sent (handleQuery rt e (Inr p) ri) = [])"
proof -
  have lower: "map ascii_lower ''_googlecast._tcp.local'' = ''_googlecast._tcp.local''"
    by (simp add: ascii_lower_def)
  have exact: "isGoogleCast p =
     (\<exists>qs. pkt_questions p = Some qs
        \<and> (\<exists>q\<in>set qs. q_name q = ''_googlecast._tcp.local'' \<and> q_type q = ''PTR''))"
    by (cases "pkt_questions p") (simp_all add: isGoogleCast_def list_ex_iff)
  have silent: "sent (handleQuery rt e (Inr p) ri) = []" if "\<not> isGoogleCast p"
    using that by (simp add: handleQuery_def)
  have "spec_relevant p" if "isGoogleCast p"
  proof -
    from that obtain qs q where qs: "pkt_questions p = Some qs" and q: "q \<in> set qs"
      and name: "q_name q = ''_googlecast._tcp.local''" and type: "q_type q = ''PTR''"
      using exact by blast
    from name have lowered: "map ascii_lower (q_name q) = ''_googlecast._tcp.local''"
      by (simp only: lower)
    have "\<exists>q\<in>set qs. map ascii_lower (q_name q) = ''_googlecast._tcp.local''
        \<and> q_type q = ''PTR''"
      using lowered type q by (intro bexI [of _ q] conjI)
    with qs show ?thesis
      by (simp add: spec_relevant_def list_ex_iff)
  qed
  with exact silent show ?thesis by blast
qed

theorem relevance_is_exact_witness:
  "isGoogleCast \<lparr> pkt_questions = Some [\<lparr> q_name = ''_services._dns-sd._udp.local'', q_type = ''PTR'' \<rparr>,
                                        \<lparr> q_name = ''_googlecast._tcp.local'', q_type = ''PTR'' \<rparr>] \<rparr>
   \<and> \<not> isGoogleCast \<lparr> pkt_questions = Some [\<lparr> q_name = ''_googlecast._tcp.local'', q_type = ''A'' \<rparr>] \<rparr>
   \<and> sent (handleQuery sample_runtime (scenario (JStr ''2025-12-08T22:00:00.000Z'') 1765231100000)
        (Inr \<lparr> pkt_questions = Some [\<lparr> q_name = ''_googlecast._tcp.local'', q_type = ''A'' \<rparr>] \<rparr>)
        guest) = []"
proof -
  let ?two = "\<lparr> pkt_questions = Some [\<lparr> q_name = ''_services._dns-sd._udp.local'', q_type = ''PTR'' \<rparr>,
                                      \<lparr> q_name = ''_googlecast._tcp.local'', q_type = ''PTR'' \<rparr>] \<rparr>"
  let ?a = "\<lparr> pkt_questions = Some [\<lparr> q_name = ''_googlecast._tcp.local'', q_type = ''A'' \<rparr>] \<rparr>"
  have "\<exists>qs. pkt_questions ?two = Some qs
        \<and> (\<exists>q\<in>set qs. q_name q = ''_googlecast._tcp.local'' \<and> q_type q = ''PTR'')"
    by simp
  then have 1: "isGoogleCast ?two"
    using relevance_is_exact [of ?two] by blast
  have "\<not> (\<exists>qs. pkt_questions ?a = Some qs
        \<and> (\<exists>q\<in>set qs. q_name q = ''_googlecast._tcp.local'' \<and> q_type q = ''PTR''))"
    by simp
  then have 2: "\<not> isGoogleCast ?a"
    using relevance_is_exact [of ?a] by blast
  then have "sent (handleQuery sample_runtime (scenario (JStr ''2025-12-08T22:00:00.000Z'') 1765231100000)
        (Inr ?a) guest) = []"
    using relevance_is_exact [of ?a sample_runtime
        "scenario (JStr ''2025-12-08T22:00:00.000Z'') 1765231100000" guest] by blast
  with 1 2 show ?thesis by blast
qed

text \<open>
  A query for \<^verbatim>\<open>_GoogleCast._TCP.local\<close> matches case-insensitively, yet it is not
  relevant to the code: the paired guest, who gets a response to the lower-case query, gets
  none.
\<close>

theorem mixed_case_query_counterexample:
  "spec_relevant \<lparr> pkt_questions = Some [\<lparr> q_name = ''_GoogleCast._TCP.local'', q_type = ''PTR'' \<rparr>] \<rparr>
   \<and> \<not> isGoogleCast \<lparr> pkt_questions = Some [\<lparr> q_name = ''_GoogleCast._TCP.local'', q_type = ''PTR'' \<rparr>] \<rparr>
   \<and> sent (handleQuery sample_runtime (scenario (JStr ''2025-12-08T22:00:00.000Z'') 1765231100000)
        (Inr \<lparr> pkt_questions = Some [\<lparr> q_name = ''_GoogleCast._TCP.local'', q_type = ''PTR'' \<rparr>] \<rparr>)
        guest) = []
   \<and> length (sent (handleQuery sample_runtime (scenario (JStr ''2025-12-08T22:00:00.000Z'') 1765231100000)
        (Inr cast_query) guest)) = 1"
  by (simp add: spec_relevant_def ascii_lower_def handleQuery_def Let_def isGoogleCast_def
      getRoomForGuest_def getDevicesForRoom_def buildResponse_def response_message_def
      socket_send_def scenario_defs)

section \<open>Which devices are answered, and where the answers go\<close>


lemma filter_room_result: "filter_room room ds = Inr r \<Longrightarrow> r = filter (in_room room) ds"
  by (induction ds arbitrary: r) (auto simp: in_room_def split: sum.splits if_splits)


lemma getDevicesForRoom_cases:
  "getDevicesForRoom e room = []
   \<or> (\<exists>registry. devicesFile e = Inr (JArr registry)
         \<and> getDevicesForRoom e room = filter (in_room room) registry)"
proof (cases "devicesFile e")
  case (Inl err)
  then show ?thesis by (simp add: getDevicesForRoom_def)
next
  case (Inr v)
  show ?thesis
  proof (cases "\<exists>registry. v = JArr registry")
    case False
    with Inr show ?thesis by (cases v) (simp_all add: getDevicesForRoom_def)
  next
    case True
    then obtain registry where v: "v = JArr registry" by blast
    show ?thesis
    proof (cases "filter_room room registry")
      case (Inl err)
      with Inr v show ?thesis by (simp add: getDevicesForRoom_def)
    next
      case r: (Inr r)
      then have "r = filter (in_room room) registry" by (rule filter_room_result)
      with Inr v r show ?thesis by (simp add: getDevicesForRoom_def)
    qed
  qed
qed




lemma send_each_destination:
  "dg \<in> set (sent (send_each rt ri g ds)) \<Longrightarrow> dst_addr dg = g \<and> dst_port dg = port ri"
  by (induction ds) (auto simp: Let_def socket_send_def split: sum.splits if_splits)





text \<open>
  C4. Every datagram \<^verbatim>\<open>handleQuery\<close> sends goes to the source address and source port of
  the query it handles, whatever the query and the stores hold; as the source of a received
  datagram is not the multicast group \<^verbatim>\<open>224.0.0.251\<close>, no response goes to the group.
\<close>

theorem replies_are_unicast:
  assumes "dg \<in> set (sent (handleQuery rt e decoded ri))"
  shows "dst_addr dg = address ri \<and> dst_port dg = port ri
       \<and> (address ri \<noteq> ''224.0.0.251'' \<longrightarrow> dst_addr dg \<noteq> ''224.0.0.251'')"
proof -
  from assms have "dg \<in> set (sent (send_each rt ri (address ri)
      (getDevicesForRoom e (getRoomForGuest rt e (address ri)))))"
    by (auto simp: handleQuery_def Let_def split: sum.splits if_splits)
  then have "dst_addr dg = address ri \<and> dst_port dg = port ri"
    by (rule send_each_destination)
  then show ?thesis by simp
qed

theorem replies_are_unicast_witness:
  "sent (handleQuery sample_runtime (scenario (JStr ''2025-12-08T22:00:00.000Z'') 1765231100000)
     (Inr cast_query) guest) \<noteq> []
   \<and> dst_addr (hd (sent (handleQuery sample_runtime
        (scenario (JStr ''2025-12-08T22:00:00.000Z'') 1765231100000) (Inr cast_query) guest)))
      = ''10.0.20.5''
   \<and> dst_port (hd (sent (handleQuery sample_runtime
        (scenario (JStr ''2025-12-08T22:00:00.000Z'') 1765231100000) (Inr cast_query) guest)))
      = 49152
   \<and> dst_addr (hd (sent (handleQuery sample_runtime
        (scenario (JStr ''2025-12-08T22:00:00.000Z'') 1765231100000) (Inr cast_query) guest)))
      \<noteq> ''224.0.0.251''"
proof -
  let ?sent = "sent (handleQuery sample_runtime
      (scenario (JStr ''2025-12-08T22:00:00.000Z'') 1765231100000) (Inr cast_query) guest)"
  have "length ?sent = 1"
    by (simp add: handleQuery_def Let_def isGoogleCast_def getRoomForGuest_def getDevicesForRoom_def
        buildResponse_def response_message_def socket_send_def scenario_defs)
  then have nonempty: "?sent \<noteq> []"
    by auto
  then have "hd ?sent \<in> set ?sent"
    by simp
  from replies_are_unicast [OF this] have "dst_addr (hd ?sent) = address guest"
    and "dst_port (hd ?sent) = port guest"
    and "address guest \<noteq> ''224.0.0.251'' \<longrightarrow> dst_addr (hd ?sent) \<noteq> ''224.0.0.251''"
    by simp_all
  with nonempty show ?thesis
    by (simp add: guest_def)
qed

text \<open>
  C9. For a relevant query from an authorized guest whose room is a string, when the
  registry file cannot be read or parsed, or does not hold an array, or holds no device in
  the guest's room, \<^verbatim>\<open>handleQuery\<close> sends nothing and ends without an exception.
\<close>

theorem empty_room_is_silent:
  assumes "isGoogleCast p" and "truthy (getRoomForGuest rt e (address ri))"
    and "getRoomForGuest rt e (address ri) = JStr R"
    and "(\<exists>err. devicesFile e = Inl err)
       \<or> (\<exists>v. devicesFile e = Inr v \<and> (\<forall>registry. v \<noteq> JArr registry))
       \<or> (\<exists>registry. devicesFile e = Inr (JArr registry)
            \<and> (\<forall>d\<in>set registry. \<not> in_room (getRoomForGuest rt e (address ri)) d))"
  shows "handleQuery rt e (Inr p) ri = \<lparr> sent = [], thrown = None \<rparr>"
proof -
  let ?room = "getRoomForGuest rt e (address ri)"
  have "getDevicesForRoom e ?room = []"
    using getDevicesForRoom_cases [of e ?room] assms(4) by (auto simp: filter_empty_conv)
  moreover from assms(2,3) have "R \<noteq> []"
    by simp
  ultimately show ?thesis
    using handleQuery_authorized [OF assms(1,3)] assms(3) by simp
qed

text \<open>The guest is paired to room 101 and \<^verbatim>\<open>data/devices.json\<close> is missing.\<close>

theorem empty_room_is_silent_witness:
  "handleQuery sample_runtime
     ((scenario (JStr ''2025-12-08T22:00:00.000Z'') 1765231100000) \<lparr> devicesFile := Inl SystemError \<rparr>)
     (Inr cast_query) guest = \<lparr> sent = [], thrown = None \<rparr>"
proof -
  let ?e = "(scenario (JStr ''2025-12-08T22:00:00.000Z'') 1765231100000) \<lparr> devicesFile := Inl SystemError \<rparr>"
  have 1: "isGoogleCast cast_query"
    by (simp add: isGoogleCast_def cast_query_def)
  have 3: "getRoomForGuest sample_runtime ?e (address guest) = JStr ''101''"
    by (simp add: getRoomForGuest_def scenario_defs)
  then have 2: "truthy (getRoomForGuest sample_runtime ?e (address guest))"
    by simp
  have "\<exists>err. devicesFile ?e = Inl err"
    by simp
  then have 4: "(\<exists>err. devicesFile ?e = Inl err)
       \<or> (\<exists>v. devicesFile ?e = Inr v \<and> (\<forall>registry. v \<noteq> JArr registry))
       \<or> (\<exists>registry. devicesFile ?e = Inr (JArr registry)
            \<and> (\<forall>d\<in>set registry. \<not> in_room (getRoomForGuest sample_runtime ?e (address guest)) d))"
    by (rule disjI1)
  show ?thesis
    by (rule empty_room_is_silent [OF 1 2 3 4])
qed

section \<open>The firewall\<close>

text \<open>
  C6. The paired guest's relevant query is answered with the response for the receiver
  \<^verbatim>\<open>abc\<close>, and with that the call of \<^verbatim>\<open>handleQuery\<close> is over: the datagram is all it
  did. The handler holds no call of \<^verbatim>\<open>allowPair\<close>, so no rule for the pair of the guest's
  address and \<^verbatim>\<open>10.0.30.9\<close> is requested; the implementation guide has the class
  \<^verbatim>\<open>FirewallManager\<close> and puts \<^verbatim>\<open>await this.firewall.allowPair(guestIP, device.ip, 15)\<close>
  after each \<^verbatim>\<open>socket.send\<close>.
\<close>

theorem answered_without_rule_request:
  "handleQuery sample_runtime (scenario (JStr ''2025-12-08T22:00:00.000Z'') 1765231100000)
     (Inr cast_query) guest
   = \<lparr> sent =
         [Datagram
            \<lparr> msg_type = ''response'', msg_id = 0, msg_flags = 0x8400, msg_questions = [],
              msg_answers =
                [\<lparr> rr_type = ''PTR'', rr_class = ''IN'',
                   rr_name = ''_googlecast._tcp.local'', rr_ttl = 120,
                   rr_data = PTR_data ''Chromecast-abc._googlecast._tcp.local'' \<rparr>],
              msg_additionals =
                [\<lparr> rr_type = ''TXT'', rr_class = ''IN'',
                   rr_name = ''Chromecast-abc._googlecast._tcp.local'', rr_ttl = 120,
                   rr_data = TXT_data (''id=abc'' @ [CHR 0x00] @ ''fn=Living Room TV'' @ [CHR 0x00]
                                       @ ''md=Chromecast'' @ [CHR 0x00] @ ''ve=05''
                                       @ [CHR 0x00] @ ''ic=/setup/icon.png'') \<rparr>,
                 \<lparr> rr_type = ''SRV'', rr_class = ''IN'',
                   rr_name = ''Chromecast-abc._googlecast._tcp.local'', rr_ttl = 120,
                   rr_data = SRV_data 0 0 8009 ''Chromecast-abc.local'' \<rparr>,
                 \<lparr> rr_type = ''A'', rr_class = ''IN'',
                   rr_name = ''Chromecast-abc.local'', rr_ttl = 120,
                   rr_data = A_data (JStr ''10.0.30.9'') \<rparr>] \<rparr>
            49152 ''10.0.20.5''],
       thrown = None \<rparr>"
  by (simp add: handleQuery_def Let_def isGoogleCast_def getRoomForGuest_def getDevicesForRoom_def
      buildResponse_def response_message_def instanceName_def socket_send_def scenario_defs)

section \<open>The synthesized instance name\<close>

lemma same_hyphens_stripped:
  "map (\<lambda>c. c = CHR ''-'') u1 = map (\<lambda>c. c = CHR ''-'') u2 \<Longrightarrow>
   filter (\<lambda>c. c \<noteq> CHR ''-'') u1 = filter (\<lambda>c. c \<noteq> CHR ''-'') u2 \<Longrightarrow> u1 = u2"
proof (induction u1 arbitrary: u2)
  case Nil
  then show ?case by simp
next
  case (Cons c cs)
  then obtain d ds where u2: "u2 = d # ds" by (cases u2) auto
  with Cons.prems have "(c = CHR ''-'') = (d = CHR ''-'')"
    and tl: "map (\<lambda>c. c = CHR ''-'') cs = map (\<lambda>c. c = CHR ''-'') ds" by auto
  with Cons.prems(2) u2 have "c = d"
    and "filter (\<lambda>c. c \<noteq> CHR ''-'') cs = filter (\<lambda>c. c \<noteq> CHR ''-'') ds"
    by (auto split: if_splits)
  with Cons.IH [OF tl] u2 show ?case by simp
qed

lemma response_message_answers:
  assumes "response_message rt d = Inr m"
  shows "\<exists>uuid. get_prop d ''uuid'' = Inr (JStr uuid)
     \<and> msg_answers m = [\<lparr> rr_type = ''PTR'', rr_class = ''IN'',
                          rr_name = ''_googlecast._tcp.local'', rr_ttl = 120,
                          rr_data = PTR_data (instanceName uuid @ ''._googlecast._tcp.local'') \<rparr>]"
  using assms by (auto simp: response_message_def split: sum.splits jsval.splits)

text \<open>
  C8, as amended. The pointer answer of a response, which carries the synthesized instance
  name, is determined by the device's \<^verbatim>\<open>uuid\<close> alone: two records with the same
  \<^verbatim>\<open>uuid\<close> get the same answer whatever their friendly names and addresses. Two
  \<^verbatim>\<open>uuid\<close>s get the same answer exactly when they are equal once their hyphens are
  removed; so distinct \<^verbatim>\<open>uuid\<close>s that have their hyphens at the same positions, as any
  two UUIDs in the canonical layout do, get distinct instance names.
\<close>

theorem instance_name_from_uuid:
  assumes "response_message rt d1 = Inr m1" and "response_message rt d2 = Inr m2"
    and "get_prop d1 ''uuid'' = Inr (JStr u1)" and "get_prop d2 ''uuid'' = Inr (JStr u2)"
  shows "(u1 = u2 \<longrightarrow> msg_answers m1 = msg_answers m2)
       \<and> (msg_answers m1 = msg_answers m2
            \<longleftrightarrow> filter (\<lambda>c. c \<noteq> CHR ''-'') u1 = filter (\<lambda>c. c \<noteq> CHR ''-'') u2)
       \<and> (map (\<lambda>c. c = CHR ''-'') u1 = map (\<lambda>c. c = CHR ''-'') u2 \<and> u1 \<noteq> u2
            \<longrightarrow> msg_answers m1 \<noteq> msg_answers m2)"
proof -
  have a1: "msg_answers m1 = [\<lparr> rr_type = ''PTR'', rr_class = ''IN'',
                          rr_name = ''_googlecast._tcp.local'', rr_ttl = 120,
                          rr_data = PTR_data (instanceName u1 @ ''._googlecast._tcp.local'') \<rparr>]"
    using response_message_answers [OF assms(1)] assms(3) by simp
  have a2: "msg_answers m2 = [\<lparr> rr_type = ''PTR'', rr_class = ''IN'',
                          rr_name = ''_googlecast._tcp.local'', rr_ttl = 120,
                          rr_data = PTR_data (instanceName u2 @ ''._googlecast._tcp.local'') \<rparr>]"
    using response_message_answers [OF assms(2)] assms(4) by simp
  have iff: "msg_answers m1 = msg_answers m2
            \<longleftrightarrow> filter (\<lambda>c. c \<noteq> CHR ''-'') u1 = filter (\<lambda>c. c \<noteq> CHR ''-'') u2"
    by (simp add: a1 a2 instanceName_def)
  then show ?thesis
    using same_hyphens_stripped [of u1 u2] by blast
qed

text \<open>
  The receiver \<^verbatim>\<open>abc\<close> renamed and moved to another address keeps its answer; the
  receiver \<^verbatim>\<open>abd\<close> has another.
\<close>

theorem instance_name_from_uuid_witness:
  "map_sum id msg_answers (response_message sample_runtime device_abc)
   = map_sum id msg_answers (response_message sample_runtime
       (JObj [(''uuid'', JStr ''abc''), (''friendly_name'', JStr ''Bedroom TV''),
              (''ip'', JStr ''10.0.30.77''), (''room'', JStr ''102'')]))
   \<and> map_sum id msg_answers (response_message sample_runtime device_abc)
   \<noteq> map_sum id msg_answers (response_message sample_runtime (device_in ''abd'' ''10.0.30.9'' ''101''))"
proof -
  let ?moved = "JObj [(''uuid'', JStr ''abc''), (''friendly_name'', JStr ''Bedroom TV''),
              (''ip'', JStr ''10.0.30.77''), (''room'', JStr ''102'')]"
  let ?other = "device_in ''abd'' ''10.0.30.9'' ''101''"
  obtain m1 where m1: "response_message sample_runtime device_abc = Inr m1"
    by (simp add: response_message_def device_abc_def)
  obtain m2 where m2: "response_message sample_runtime ?moved = Inr m2"
    by (simp add: response_message_def)
  obtain m3 where m3: "response_message sample_runtime ?other = Inr m3"
    by (simp add: response_message_def device_in_def)
  have u1: "get_prop device_abc ''uuid'' = Inr (JStr ''abc'')"
    by (simp add: device_abc_def)
  have u2: "get_prop ?moved ''uuid'' = Inr (JStr ''abc'')"
    by simp
  have u3: "get_prop ?other ''uuid'' = Inr (JStr ''abd'')"
    by (simp add: device_in_def)
  have "msg_answers m1 = msg_answers m2"
    using instance_name_from_uuid [OF m1 m2 u1 u2] by simp
  moreover have "msg_answers m1 \<noteq> msg_answers m3"
    using instance_name_from_uuid [OF m1 m3 u1 u3] by simp
  ultimately show ?thesis
    by (simp add: m1 m2 m3)
qed

text \<open>The distinct identifiers \<^verbatim>\<open>ab-c\<close> and \<^verbatim>\<open>a-bc\<close> get the same instance name.\<close>

theorem hyphen_collision_counterexample:
  "''ab-c'' \<noteq> ''a-bc''
   \<and> instanceName ''ab-c'' = instanceName ''a-bc''
   \<and> map_sum id msg_answers (response_message sample_runtime (JObj [(''uuid'', JStr ''ab-c'')]))
     = map_sum id msg_answers (response_message sample_runtime (JObj [(''uuid'', JStr ''a-bc'')]))"
  by (simp add: instanceName_def response_message_def)

section \<open>Upserts of the discovery listener\<close>

text \<open>
  C7. The registry holds the receiver \<^verbatim>\<open>abc\<close> with the room \<^verbatim>\<open>101\<close> assigned by hand.
  The listener sees the receiver again: \<^verbatim>\<open>fetchDeviceInfo\<close> yields a record with
  \<^verbatim>\<open>room: null\<close>, and \<^verbatim>\<open>saveDevice\<close> writes the registry back with the room of
  \<^verbatim>\<open>abc\<close> replaced by \<^verbatim>\<open>null\<close>.
\<close>

theorem discovery_upsert_clears_room:
  "get_prop device_abc ''room'' = Inr (JStr ''101'')
   \<and> fetchDeviceInfo (Inr \<lparr> UDN = ''uuid:abc'', friendlyName = ''Living Room TV'' \<rparr>)
        ''10.0.30.9'' ''2025-12-09T08:00:00.000Z''
     = Inr (JObj [(''uuid'', JStr ''abc''),
                  (''friendly_name'', JStr ''Living Room TV''),
                  (''ip'', JStr ''10.0.30.9''),
                  (''last_seen'', JStr ''2025-12-09T08:00:00.000Z''),
                  (''room'', JNull)])
   \<and> saveDevice (Inr (JArr [device_abc]))
        (JObj [(''uuid'', JStr ''abc''),
               (''friendly_name'', JStr ''Living Room TV''),
               (''ip'', JStr ''10.0.30.9''),
               (''last_seen'', JStr ''2025-12-09T08:00:00.000Z''),
               (''room'', JNull)])
     = Inr (JArr [JObj [(''uuid'', JStr ''abc''),
                        (''friendly_name'', JStr ''Living Room TV''),
                        (''ip'', JStr ''10.0.30.9''),
                        (''last_seen'', JStr ''2025-12-09T08:00:00.000Z''),
                        (''room'', JNull)]])"
  by (simp add: fetchDeviceInfo_def saveDevice_def spread_def device_abc_def)

end
